theory Spec2Isabelle
  imports Main "HOL-Library.Sublist"
begin

section \<open>Python strings\<close>

text \<open>
  A Python \<open>str\<close> is a sequence of Unicode code points, and \<open>s[:n]\<close> counts code points.
  The failure text of \<open>extract_video\<close> holds U+26A0, U+FE0F and U+2192, which are no 8-bit
  characters, so a \<open>str\<close> is modelled as the list of its code points. \<open>py\<close> embeds an ASCII
  literal.
\<close>

type_synonym str = "nat list"

definition py :: "string \<Rightarrow> str" where
  "py s = map of_char s"

text \<open>\<open>contains s sub\<close> is Python's \<open>sub in s\<close>: \<open>sub\<close> occurs in \<open>s\<close> as a contiguous run.\<close>

fun contains :: "str \<Rightarrow> str \<Rightarrow> bool" where
  "contains [] sub = (sub = [])"
| "contains (c # cs) sub = (prefix sub (c # cs) \<or> contains cs sub)"

text \<open>\<open>a or b\<close> on strings: the empty string is falsy.\<close>

definition or_str :: "str \<Rightarrow> str \<Rightarrow> str" where
  "or_str a b = (if a \<noteq> [] then a else b)"

text \<open>
  \<open>str.lower()\<close>. The source uses it only in the test \<open>"bot" in error_detail.lower()\<close>.
  The code points whose Unicode lower-case mapping yields \<open>b\<close>, \<open>o\<close> or \<open>t\<close> are the ASCII
  letters themselves, each mapped to one code point, so mapping \<open>A\<close>..\<open>Z\<close> alone decides
  that test as Python does.
\<close>

definition lower :: "str \<Rightarrow> str" where
  "lower s = map (\<lambda>c. if 65 \<le> c \<and> c \<le> 90 then c + 32 else c) s"

definition quote :: str where
  "quote = [39]"

definition newline :: str where
  "newline = [10]"

section \<open>Values decoded by \<open>json.loads\<close>\<close>

text \<open>
  The Python objects \<open>json.loads\<close> can return. The type of floats is a parameter: no float
  is ever inspected.
\<close>

datatype 'f json =
    JNone
  | JBool bool
  | JInt int
  | JFloat 'f
  | JStr str
  | JList "'f json list"
  | JDict "(str \<times> 'f json) list"

fun type_name :: "'f json \<Rightarrow> str" where
  "type_name JNone = py ''NoneType''"
| "type_name (JBool _) = py ''bool''"
| "type_name (JInt _) = py ''int''"
| "type_name (JFloat _) = py ''float''"
| "type_name (JStr _) = py ''str''"
| "type_name (JList _) = py ''list''"
| "type_name (JDict _) = py ''dict''"

text \<open>
  \<open>data.get(key, default)\<close> (line 156, inside the log message): only a \<open>dict\<close> has the
  method; on any other object the attribute lookup raises \<open>AttributeError\<close>, whose text is
  the \<open>Inl\<close> value.
\<close>

definition get :: "'f json \<Rightarrow> str \<Rightarrow> 'f json \<Rightarrow> str + 'f json" where
  "get data key dflt =
     (case data of
        JDict kvs \<Rightarrow> Inr (case map_of kvs key of Some v \<Rightarrow> v | None \<Rightarrow> dflt)
      | _ \<Rightarrow> Inl (quote @ type_name data @ quote @ py '' object has no attribute ''
                 @ quote @ py ''get'' @ quote))"

section \<open>The environment of one request\<close>

text \<open>
  What \<open>subprocess.run(args, capture_output=True, text=True, timeout=60, check=False)\<close> can
  do: return a completed process (return code, stdout, stderr), raise
  \<open>subprocess.TimeoutExpired\<close>, or raise another exception \<open>e\<close>, kept as \<open>str(e)\<close>.
\<close>

datatype run_outcome =
    CompletedProcess int str str
  | TimeoutExpired
  | Raised str

text \<open>
  What \<open>json.loads(result.stdout)\<close> can do: return the decoded object, raise
  \<open>json.JSONDecodeError\<close> (caught on line 158), or raise another exception, such as the
  \<open>RecursionError\<close> of a deeply nested document or the \<open>ValueError\<close> of an integer literal
  beyond the digit limit, which only the handler of line 185 catches. Each exception is kept
  as \<open>str(e)\<close>.
\<close>

datatype 'f loads_outcome =
    Decoded "'f json"
  | JSONDecodeError str
  | LoadsRaised str

text \<open>
  Everything outside the function body is a field of the environment: \<open>sys.executable\<close>,
  \<open>os.getenv\<close>, \<open>os.path.exists\<close>, the external tool behind \<open>subprocess.run\<close>, the parser
  \<open>json.loads\<close> and the constructor \<open>JSONResponse(content=data)\<close>. The tool may answer
  differently each time it is run, so \<open>subprocess_run\<close> also takes the number of runs made
  before in the request; its last argument is the timeout in seconds. The constructor
  renders the body of the response and raises on content it cannot render (a float that is
  NaN or infinite, a string with a lone surrogate): \<open>response_error env data\<close> is \<open>str(e)\<close>
  of the exception it raises on \<open>data\<close>, and \<open>None\<close> when it returns the response.
\<close>

record 'f env =
  executable :: str
  getenv :: "str \<Rightarrow> str option"
  path_exists :: "str \<Rightarrow> bool"
  subprocess_run :: "nat \<Rightarrow> str list \<Rightarrow> nat \<Rightarrow> run_outcome"
  json_loads :: "str \<Rightarrow> 'f loads_outcome"
  response_error :: "'f json \<Rightarrow> str option"

section \<open>The strategy catalog\<close>

text \<open>Each tuple: (client_type, skip_type, additional_args).\<close>

type_synonym player_config = "str \<times> str option \<times> str list"

definition player_configs :: "player_config list" where
  "player_configs =
     [(py ''web'', Some (py ''webpage''), []),
      (py ''web'', None, []),
      (py ''ios'', None, []),
      (py ''android'', None, []),
      (py ''mweb'', None, [])]"

text \<open>\<open>if skip_type\<close>: \<open>None\<close> and the empty string are falsy.\<close>

fun truthy :: "str option \<Rightarrow> bool" where
  "truthy None = False"
| "truthy (Some s) = (s \<noteq> [])"

fun config_name :: "player_config \<Rightarrow> str" where
  "config_name (client_type, skip_type, additional_args) =
     client_type @ (case skip_type of
                      Some s \<Rightarrow> if s \<noteq> [] then py '' (skip: '' @ s @ py '')'' else []
                    | None \<Rightarrow> [])"

section \<open>Building the invocation (lines 103 to 139)\<close>

definition user_agent :: str where
  "user_agent = py ''Mozilla/5.0 (Windows NT 10.0; Win64; x64) AppleWebKit/537.36 (KHTML, like Gecko) Chrome/120.0.0.0 Safari/537.36''"

text \<open>
  \<open>use_cookies\<close> is true only when \<open>cookies_file\<close> is a non-empty string, so the \<open>None\<close> branch
  of the cookies step is never taken (lemma \<open>use_cookies_file\<close> below).
\<close>

fun build_args :: "str \<Rightarrow> str \<Rightarrow> bool \<Rightarrow> str option \<Rightarrow> player_config \<Rightarrow> str list" where
  "build_args exe video_url use_cookies cookies_file (client_type, skip_type, additional_args) =
     [exe, py ''-m'', py ''yt_dlp'',
      py ''--dump-json'',
      py ''--no-warnings'',
      py ''--no-playlist'',
      py ''--user-agent'', user_agent,
      py ''--extractor-args'', py ''youtube:player_client='' @ client_type]
     @ (if truthy skip_type
        then [py ''--extractor-args'',
              py ''youtube:player_skip='' @ (case skip_type of Some s \<Rightarrow> s | None \<Rightarrow> [])]
        else [])
     @ [py ''--extractor-args'', py ''youtube:player_params=8AEB'',
        py ''--extractor-args'', py ''youtube:include_live_chat=false'',
        py ''--extractor-args'', py ''youtube:skip=dash,translated_subs'']
     @ [py ''--add-header'', py ''Referer:https://www.youtube.com/'']
     @ additional_args
     @ (if use_cookies
        then (case cookies_file of Some p \<Rightarrow> [py ''--cookies'', p] | None \<Rightarrow> [])
        else [])
     @ [video_url]"

section \<open>One attempt (the body of the loop, lines 101 to 188)\<close>

text \<open>
  The source keeps only the message of a failed attempt, in \<open>last_error\<close>. The category names
  the branch that wrote it: line 161, 170, 174, 178, 183 or 187.
\<close>

datatype category =
    ParseError
  | BotDetection
  | UnsupportedContent
  | Other
  | Timeout
  | InternalError

datatype 'f attempt_result =
    Return "'f json"
  | Continue category str

definition error_msg :: "str \<Rightarrow> str \<Rightarrow> str" where
  "error_msg stderr stdout = or_str stderr (or_str stdout (py ''Unknown error''))"

text \<open>Lines 168 to 179, reached only with a non-zero return code.\<close>

definition classify_failure :: "player_config \<Rightarrow> str \<Rightarrow> 'f attempt_result" where
  "classify_failure cfg msg =
     (if contains msg (py ''Sign in to confirm'') \<or> contains msg (py ''not a bot'')
      then Continue BotDetection
             (py ''YouTube bot detection (tried '' @ config_name cfg @ py '')'')
      else if contains msg (py ''not available on this app'')
              \<or> contains msg (py ''Watch on the latest version'')
      then Continue UnsupportedContent
             (py ''Content not available for '' @ config_name cfg @ py '': '' @ take 200 msg)
      else Continue Other (take 500 msg))"

text \<open>
  Lines 152 to 188 on the outcome of \<open>subprocess.run\<close>. With return code 0 and decodable
  stdout, the log message of line 156 calls \<open>data.get\<close> and line 157 constructs the response,
  both inside the inner \<open>try\<close>, whose only handler is for \<open>JSONDecodeError\<close>. An
  \<open>AttributeError\<close> of \<open>data.get\<close>, an exception of the constructor and any other exception
  of \<open>json.loads\<close> reach the handler of line 185, which stores \<open>str(e)\<close> and continues.
\<close>

definition classify :: "'f env \<Rightarrow> player_config \<Rightarrow> run_outcome \<Rightarrow> 'f attempt_result" where
  "classify env cfg outcome =
     (case outcome of
        CompletedProcess returncode stdout stderr \<Rightarrow>
          if returncode = 0 then
            (case json_loads env stdout of
               Decoded data \<Rightarrow>
                 (case get data (py ''title'') (JStr (py ''Unknown'')) of
                    Inr title \<Rightarrow>
                      (case response_error env data of
                         None \<Rightarrow> Return data
                       | Some e \<Rightarrow> Continue InternalError e)
                  | Inl e \<Rightarrow> Continue InternalError e)
             | JSONDecodeError e \<Rightarrow>
                 Continue ParseError (py ''Failed to parse yt-dlp output: '' @ e)
             | LoadsRaised e \<Rightarrow> Continue InternalError e)
          else classify_failure cfg (error_msg stderr stdout)
      | TimeoutExpired \<Rightarrow> Continue Timeout (py ''Video extraction timed out'')
      | Raised e \<Rightarrow> Continue InternalError e)"

definition attempt ::
  "'f env \<Rightarrow> str \<Rightarrow> bool \<Rightarrow> str option \<Rightarrow> nat \<Rightarrow> player_config \<Rightarrow> 'f attempt_result" where
  "attempt env video_url use_cookies cookies_file i cfg =
     classify env cfg
       (subprocess_run env i
          (build_args (executable env) video_url use_cookies cookies_file cfg) 60)"

section \<open>After the loop (lines 190 to 211)\<close>

definition remediation :: str where
  "remediation =
     py ''YouTube bot detection: All client types were blocked.'' @ newline @ newline
     @ [9888, 65039] @ py '' COOKIES ARE REQUIRED: YouTube now requires browser cookies for most video extractions.''
     @ newline @ newline
     @ py ''To fix this:'' @ newline
     @ py ''1. Install '' @ quote @ py ''Get cookies.txt LOCALLY'' @ quote
     @ py '' extension in Chrome/Edge'' @ newline
     @ py ''2. Visit youtube.com and sign in'' @ newline
     @ py ''3. Click the extension '' @ [8594] @ py '' Export '' @ [8594]
     @ py '' Save as cookies.txt'' @ newline
     @ py ''4. Upload cookies.txt to your deployment platform'' @ newline
     @ py ''5. Set YTDLP_COOKIES_FILE environment variable to the file path''
     @ newline @ newline
     @ py ''See ytdlp-service/COOKIES_SETUP.md for detailed instructions.''"

definition fallback :: str where
  "fallback = py ''All YouTube client types failed''"

text \<open>\<open>last_error or "All YouTube client types failed"\<close>: \<open>None\<close> and \<open>""\<close> are falsy.\<close>

fun or_default :: "str option \<Rightarrow> str \<Rightarrow> str" where
  "or_default None d = d"
| "or_default (Some s) d = or_str s d"

definition bot_pattern :: "str \<Rightarrow> bool" where
  "bot_pattern detail \<longleftrightarrow> contains (lower detail) (py ''bot'') \<or> contains detail (py ''Sign in'')"

definition error_detail :: "str option \<Rightarrow> str" where
  "error_detail last_error =
     (let detail = or_default last_error fallback
      in if bot_pattern detail then remediation else detail)"

datatype 'f response =
    JSONResponse "'f json"
  | HTTPException nat str

definition all_failed :: "str option \<Rightarrow> 'f response" where
  "all_failed last_error =
     HTTPException 500 (py ''yt-dlp extraction failed: '' @ error_detail last_error)"

section \<open>The loop and the endpoint\<close>

text \<open>
  The loop of line 97 over the remaining configurations, with \<open>i\<close> runs of the tool made so
  far and the current \<open>last_error\<close>. Beside the response it returns the attempts made, in
  order: the configuration, the arguments passed to \<open>subprocess.run\<close>, and how the attempt
  ended.
\<close>

type_synonym 'f attempt_log = "(player_config \<times> str list \<times> 'f attempt_result) list"

fun try_configs ::
  "'f env \<Rightarrow> str \<Rightarrow> bool \<Rightarrow> str option \<Rightarrow> nat \<Rightarrow> player_config list \<Rightarrow> str option
     \<Rightarrow> 'f attempt_log \<times> 'f response" where
  "try_configs env video_url use_cookies cookies_file i [] last_error =
     ([], all_failed last_error)"
| "try_configs env video_url use_cookies cookies_file i (cfg # cfgs) last_error =
     (let args = build_args (executable env) video_url use_cookies cookies_file cfg;
          r = attempt env video_url use_cookies cookies_file i cfg
      in case r of
           Return data \<Rightarrow> ([(cfg, args, r)], JSONResponse data)
         | Continue cat msg \<Rightarrow>
             (let rest = try_configs env video_url use_cookies cookies_file (Suc i) cfgs (Some msg)
              in ((cfg, args, r) # fst rest, snd rest)))"

text \<open>
  Lines 90 and 91: \<open>cookies_file and os.path.exists(cookies_file)\<close>. \<open>and\<close> short-circuits,
  so \<open>os.path.exists\<close> is called only on a non-empty string. The first component lists the
  paths it was called on.
\<close>

definition use_cookies :: "'f env \<Rightarrow> str option \<Rightarrow> str list \<times> bool" where
  "use_cookies env cookies_file =
     (case cookies_file of
        None \<Rightarrow> ([], False)
      | Some p \<Rightarrow> if p = [] then ([], False) else ([p], path_exists env p))"

record 'f run =
  exists_checks :: "str list"
  attempts :: "'f attempt_log"
  response :: "'f response"

text \<open>\<open>extract_video\<close> with the strategy list as a parameter.\<close>

definition extract_with :: "'f env \<Rightarrow> player_config list \<Rightarrow> str \<Rightarrow> 'f run" where
  "extract_with env cfgs video_url =
     (let cookies_file = getenv env (py ''YTDLP_COOKIES_FILE'');
          uc = use_cookies env cookies_file;
          res = try_configs env video_url (snd uc) cookies_file 0 cfgs None
      in \<lparr>exists_checks = fst uc, attempts = fst res, response = snd res\<rparr>)"

definition extract_video :: "'f env \<Rightarrow> str \<Rightarrow> 'f run" where
  "extract_video env video_url = extract_with env player_configs video_url"

text \<open>The arguments of the external-tool invocations of a run, in order.\<close>

definition invocations :: "'f run \<Rightarrow> str list list" where
  "invocations r = map (\<lambda>(cfg, args, res). args) (attempts r)"

section \<open>Observing a run\<close>

text \<open>
  Names for the parts of a run the properties speak about. \<open>cookies_file\<close> is line 90;
  \<open>invocation\<close> is the argument list the request builds for a configuration;
  \<open>outcome_at\<close> is what the tool does when the \<open>i\<close>-th configuration is run as the
  \<open>i\<close>-th invocation of the request, and \<open>result_at\<close> how that attempt ends.
\<close>

fun last_error_of :: "'f attempt_result \<Rightarrow> str option" where
  "last_error_of (Return data) = None"
| "last_error_of (Continue cat msg) = Some msg"

fun category_of :: "'f attempt_result \<Rightarrow> category option" where
  "category_of (Return data) = None"
| "category_of (Continue cat msg) = Some cat"

definition entry ::
  "'f env \<Rightarrow> str \<Rightarrow> bool \<Rightarrow> str option \<Rightarrow> nat \<times> player_config
     \<Rightarrow> player_config \<times> str list \<times> 'f attempt_result" where
  "entry env video_url uc cf jc =
     (snd jc, build_args (executable env) video_url uc cf (snd jc),
      attempt env video_url uc cf (fst jc) (snd jc))"

definition cookies_file :: "'f env \<Rightarrow> str option" where
  "cookies_file env = getenv env (py ''YTDLP_COOKIES_FILE'')"

definition invocation :: "'f env \<Rightarrow> str \<Rightarrow> player_config \<Rightarrow> str list" where
  "invocation env video_url cfg =
     build_args (executable env) video_url (snd (use_cookies env (cookies_file env)))
       (cookies_file env) cfg"

definition outcome_at :: "'f env \<Rightarrow> player_config list \<Rightarrow> str \<Rightarrow> nat \<Rightarrow> run_outcome" where
  "outcome_at env cfgs video_url i = subprocess_run env i (invocation env video_url (cfgs ! i)) 60"

definition result_at :: "'f env \<Rightarrow> player_config list \<Rightarrow> str \<Rightarrow> nat \<Rightarrow> 'f attempt_result" where
  "result_at env cfgs video_url i = classify env (cfgs ! i) (outcome_at env cfgs video_url i)"

text \<open>
  The first row of the decision table as the code decides it: return code zero, stdout
  decodes to a \<open>dict\<close> (the JSON object that the tool prints for one video), and the response
  is constructed from it without an exception.
\<close>

definition success :: "'f env \<Rightarrow> run_outcome \<Rightarrow> bool" where
  "success env outcome =
     (case outcome of
        CompletedProcess returncode stdout stderr \<Rightarrow>
          returncode = 0
          \<and> (case json_loads env stdout of
                Decoded (JDict kvs) \<Rightarrow> response_error env (JDict kvs) = None
              | _ \<Rightarrow> False)
      | _ \<Rightarrow> False)"

text \<open>
  An exception whose text is empty reached the handler of line 185: raised by
  \<open>subprocess.run\<close>, by \<open>json.loads\<close> (other than \<open>JSONDecodeError\<close>) or by the constructor of
  the response. The text of the \<open>AttributeError\<close> of \<open>data.get\<close> is never empty.
\<close>

definition raised_empty :: "'f env \<Rightarrow> run_outcome \<Rightarrow> bool" where
  "raised_empty env outcome =
     (case outcome of
        CompletedProcess returncode stdout stderr \<Rightarrow>
          returncode = 0
          \<and> (case json_loads env stdout of
                Decoded (JDict kvs) \<Rightarrow> response_error env (JDict kvs) = Some []
              | LoadsRaised e \<Rightarrow> e = []
              | _ \<Rightarrow> False)
      | TimeoutExpired \<Rightarrow> False
      | Raised e \<Rightarrow> e = [])"

text \<open>
  The classification path of a run: the strategies attempted, in order, each with the
  category of its diagnostic (\<open>None\<close> for the attempt that returned), and whether the
  request ended with a payload.
\<close>

definition classification_path :: "'f run \<Rightarrow> (player_config \<times> category option) list \<times> bool" where
  "classification_path r =
     (map (\<lambda>(cfg, args, res). (cfg, category_of res)) (attempts r),
      case response r of JSONResponse data \<Rightarrow> True | HTTPException status detail \<Rightarrow> False)"

section \<open>Small environments for concrete runs\<close>

text \<open>
  \<open>toy_env cookie tool\<close>: the variable \<open>YTDLP_COOKIES_FILE\<close> has the value \<open>cookie\<close>, no file
  exists and the \<open>i\<close>-th run of the tool ends as \<open>tool i\<close>. The parser knows the documents
  \<open>{}\<close>, \<open>[]\<close>, \<open>null\<close> and \<open>nan_doc\<close>, an object with a NaN in it (the one float of the toy
  is that NaN); on the digit \<open>1\<close> written 5000 times it raises the \<open>ValueError\<close> of the
  digit limit, and on anything else \<open>JSONDecodeError\<close>. The constructor of the response
  raises \<open>ValueError\<close> on the object with the NaN and accepts everything else.
\<close>

definition nan_doc :: str where
  "nan_doc = py ''{'' @ [34] @ py ''duration'' @ [34] @ py '': NaN}''"

definition toy_loads :: "str \<Rightarrow> unit loads_outcome" where
  "toy_loads s =
     (if s = py ''{}'' then Decoded (JDict [])
      else if s = py ''[]'' then Decoded (JList [])
      else if s = py ''null'' then Decoded JNone
      else if s = nan_doc then Decoded (JDict [(py ''duration'', JFloat ())])
      else if length s = 5000 \<and> set s = {49}
      then LoadsRaised (py ''Exceeds the limit (4300 digits) for integer string conversion: value has 5000 digits; use sys.set_int_max_str_digits() to increase the limit'')
      else JSONDecodeError (py ''Expecting value: line 1 column 1 (char 0)''))"

definition toy_response_error :: "unit json \<Rightarrow> str option" where
  "toy_response_error data =
     (if data = JDict [(py ''duration'', JFloat ())]
      then Some (py ''Out of range float values are not JSON compliant'')
      else None)"

definition toy_env :: "str option \<Rightarrow> (nat \<Rightarrow> run_outcome) \<Rightarrow> unit env" where
  "toy_env cookie tool =
     \<lparr>executable = py ''/usr/bin/python3'',
      getenv = (\<lambda>k. if k = py ''YTDLP_COOKIES_FILE'' then cookie else None),
      path_exists = (\<lambda>p. False),
      subprocess_run = (\<lambda>i args timeout. tool i),
      json_loads = toy_loads,
      response_error = toy_response_error\<rparr>"

definition toy_url :: str where
  "toy_url = py ''https://www.youtube.com/watch?v=abc''"

section \<open>The loop, step by step\<close>

lemma try_configs_Continue:
  assumes "attempt env url uc cf i cfg = Continue cat msg"
  shows "try_configs env url uc cf i (cfg # cfgs) le =
           ((cfg, build_args (executable env) url uc cf cfg, Continue cat msg)
              # fst (try_configs env url uc cf (Suc i) cfgs (Some msg)),
            snd (try_configs env url uc cf (Suc i) cfgs (Some msg)))"
  using assms by (simp add: Let_def)


lemma try_configs_fail_prefix:
  assumes "\<forall>j<length pre. \<exists>cat m. attempt env url uc cf (i + j) (pre ! j) = Continue cat m"
  shows "try_configs env url uc cf i (pre @ rest) le =
           (map (entry env url uc cf) (enumerate i pre)
              @ fst (try_configs env url uc cf (i + length pre) rest
                       (if pre = [] then le
                        else last_error_of (attempt env url uc cf (i + length pre - 1) (last pre)))),
            snd (try_configs env url uc cf (i + length pre) rest
                   (if pre = [] then le
                    else last_error_of (attempt env url uc cf (i + length pre - 1) (last pre)))))"
  using assms
proof (induction pre arbitrary: i le)
  case Nil
  then show ?case by simp
next
  case (Cons c pre)
  from Cons.prems have "\<exists>cat m. attempt env url uc cf (i + 0) ((c # pre) ! 0) = Continue cat m"
    by blast
  then obtain cat m where c: "attempt env url uc cf i c = Continue cat m"
    by auto
  have rest: "\<forall>j<length pre. \<exists>cat m. attempt env url uc cf (Suc i + j) (pre ! j) = Continue cat m"
  proof (intro allI impI)
    fix j assume "j < length pre"
    then have "Suc j < length (c # pre)" by simp
    with Cons.prems have "\<exists>cat m. attempt env url uc cf (i + Suc j) ((c # pre) ! Suc j) = Continue cat m"
      by blast
    then show "\<exists>cat m. attempt env url uc cf (Suc i + j) (pre ! j) = Continue cat m"
      by simp
  qed
  note IH = Cons.IH [OF rest, of "Some m"]
  show ?case
  proof (cases "pre = []")
    case True
    with c show ?thesis
      by (simp add: try_configs_Continue entry_def del: try_configs.simps)
  next
    case False
    with c IH show ?thesis
      by (simp add: try_configs_Continue entry_def del: try_configs.simps)
  qed
qed

lemma attempt_result_at:
  "attempt env url (snd (use_cookies env (cookies_file env))) (cookies_file env) i (cfgs ! i)
     = result_at env cfgs url i"
  by (simp add: attempt_def result_at_def outcome_at_def invocation_def)

lemma entry_result_at:
  "i < length cfgs \<Longrightarrow>
   entry env url (snd (use_cookies env (cookies_file env))) (cookies_file env) (i, cfgs ! i)
     = (cfgs ! i, invocation env url (cfgs ! i), result_at env cfgs url i)"
  by (simp add: entry_def attempt_result_at invocation_def)

lemma extract_with_attempts:
  "attempts (extract_with env cfgs url) =
     fst (try_configs env url (snd (use_cookies env (cookies_file env))) (cookies_file env) 0 cfgs None)"
  by (simp add: extract_with_def cookies_file_def Let_def)

lemma extract_with_response:
  "response (extract_with env cfgs url) =
     snd (try_configs env url (snd (use_cookies env (cookies_file env))) (cookies_file env) 0 cfgs None)"
  by (simp add: extract_with_def cookies_file_def Let_def)

lemma map_entry_enumerate:
  "map (entry env url (snd (use_cookies env (cookies_file env))) (cookies_file env))
       (enumerate 0 (take n cfgs))
     = map (\<lambda>i. (cfgs ! i, invocation env url (cfgs ! i), result_at env cfgs url i))
           [0..<min n (length cfgs)]"
proof (rule nth_equalityI)
  show "length (map (entry env url (snd (use_cookies env (cookies_file env))) (cookies_file env))
                 (enumerate 0 (take n cfgs)))
        = length (map (\<lambda>i. (cfgs ! i, invocation env url (cfgs ! i), result_at env cfgs url i))
                   [0..<min n (length cfgs)])"
    by (simp add: min.commute)
next
  fix i
  assume "i < length (map (entry env url (snd (use_cookies env (cookies_file env))) (cookies_file env))
                 (enumerate 0 (take n cfgs)))"
  then have i: "i < n" "i < length cfgs" by simp_all
  then show "map (entry env url (snd (use_cookies env (cookies_file env))) (cookies_file env))
       (enumerate 0 (take n cfgs)) ! i
     = map (\<lambda>i. (cfgs ! i, invocation env url (cfgs ! i), result_at env cfgs url i))
           [0..<min n (length cfgs)] ! i"
    by (simp add: nth_enumerate_eq entry_result_at)
qed

lemma all_fail_run:
  assumes "\<forall>i<length cfgs. \<exists>cat m. result_at env cfgs url i = Continue cat m"
  shows "attempts (extract_with env cfgs url)
           = map (\<lambda>i. (cfgs ! i, invocation env url (cfgs ! i), result_at env cfgs url i))
                 [0..<length cfgs]"
    and "response (extract_with env cfgs url)
           = all_failed (if cfgs = [] then None
                         else last_error_of (result_at env cfgs url (length cfgs - 1)))"
proof -
  let ?uc = "snd (use_cookies env (cookies_file env))"
  let ?cf = "cookies_file env"
  have "\<forall>j<length cfgs. \<exists>cat m. attempt env url ?uc ?cf (0 + j) (cfgs ! j) = Continue cat m"
    using assms by (simp add: attempt_result_at)
  from try_configs_fail_prefix [OF this, of "[]" None]
  have eq: "try_configs env url ?uc ?cf 0 cfgs None =
          (map (entry env url ?uc ?cf) (enumerate 0 cfgs),
           all_failed (if cfgs = [] then None
                       else last_error_of (attempt env url ?uc ?cf (length cfgs - 1) (last cfgs))))"
    by simp
  have "map (entry env url ?uc ?cf) (enumerate 0 cfgs)
          = map (\<lambda>i. (cfgs ! i, invocation env url (cfgs ! i), result_at env cfgs url i))
                [0..<length cfgs]"
    using map_entry_enumerate [of env url "length cfgs" cfgs] by simp
  with eq show "attempts (extract_with env cfgs url)
           = map (\<lambda>i. (cfgs ! i, invocation env url (cfgs ! i), result_at env cfgs url i))
                 [0..<length cfgs]"
    by (simp add: extract_with_attempts)
  have "cfgs \<noteq> [] \<Longrightarrow> last cfgs = cfgs ! (length cfgs - 1)"
    by (simp add: last_conv_nth)
  with eq show "response (extract_with env cfgs url)
           = all_failed (if cfgs = [] then None
                         else last_error_of (result_at env cfgs url (length cfgs - 1)))"
    by (auto simp add: extract_with_response attempt_result_at)
qed


lemma invocations_map:
  "attempts r = map (\<lambda>i. (cfgs ! i, invocation env url (cfgs ! i), result_at env cfgs url i)) [0..<n]
   \<Longrightarrow> n \<le> length cfgs
   \<Longrightarrow> invocations r = map (invocation env url) (take n cfgs)"
  by (auto simp add: invocations_def intro: nth_equalityI)

section \<open>How an attempt is classified\<close>

lemma classify_failure_Continue:
  "\<exists>cat m. classify_failure cfg msg = Continue cat m"
  by (simp add: classify_failure_def)


lemma get_Inr_iff: "(\<exists>v. get data key dflt = Inr v) \<longleftrightarrow> (\<exists>kvs. data = JDict kvs)"
  by (cases data) (simp_all add: get_def)


lemma classify_zero_exit:
  "classify env cfg (CompletedProcess 0 stdout stderr) =
     (case json_loads env stdout of
        Decoded data \<Rightarrow>
          (case data of
             JDict kvs \<Rightarrow>
               (case response_error env data of
                  None \<Rightarrow> Return data
                | Some e \<Rightarrow> Continue InternalError e)
           | _ \<Rightarrow> Continue InternalError
                   (quote @ type_name data @ quote @ py '' object has no attribute ''
                    @ quote @ py ''get'' @ quote))
      | JSONDecodeError e \<Rightarrow> Continue ParseError (py ''Failed to parse yt-dlp output: '' @ e)
      | LoadsRaised e \<Rightarrow> Continue InternalError e)"
  by (simp add: classify_def get_def split: loads_outcome.splits json.splits)

lemma classify_not_success:
  assumes "\<not> success env outcome"
  shows "\<exists>cat m. classify env cfg outcome = Continue cat m"
proof (cases outcome)
  case (CompletedProcess rc out err)
  show ?thesis
  proof (cases "rc = 0")
    case True
    with assms CompletedProcess show ?thesis
      by (auto simp add: classify_zero_exit success_def
               split: loads_outcome.splits json.splits option.splits)
  next
    case False
    with CompletedProcess show ?thesis
      using classify_failure_Continue [of cfg "error_msg err out"] by (simp add: classify_def)
  qed
next
  case TimeoutExpired
  then show ?thesis by (simp add: classify_def)
next
  case (Raised e)
  then show ?thesis by (simp add: classify_def)
qed

section \<open>Runs of the catalog in which every attempt fails alike\<close>

lemma length_player_configs: "length player_configs = 5"
  by (simp add: player_configs_def)


section \<open>First success wins\<close>




section \<open>Exhaustion\<close>

text \<open>
  Claim C2. For every strategy list of length \<open>N\<close>: if every attempt fails, the request
  makes exactly \<open>N\<close> invocations of the tool, one per strategy and in order, and the error
  text it raises is \<open>error_detail\<close> of the message kept from the last attempt alone (of
  \<open>None\<close> when the list is empty); what the earlier attempts recorded does not occur in it.
\<close>

theorem exhaustion_reports_last_diagnostic:
  assumes "\<forall>i<length cfgs. \<not> success env (outcome_at env cfgs url i)"
  shows "length (invocations (extract_with env cfgs url)) = length cfgs
       \<and> invocations (extract_with env cfgs url) = map (invocation env url) cfgs
       \<and> response (extract_with env cfgs url)
           = HTTPException 500
               (py ''yt-dlp extraction failed: ''
                @ error_detail (if cfgs = [] then None
                                else last_error_of (result_at env cfgs url (length cfgs - 1))))"
proof -
  have "\<forall>i<length cfgs. \<exists>cat m. result_at env cfgs url i = Continue cat m"
    using assms by (simp add: result_at_def classify_not_success)
  note run = all_fail_run [OF this]
  have inv: "invocations (extract_with env cfgs url) = map (invocation env url) cfgs"
    using invocations_map [OF run(1)] by simp
  then have "length (invocations (extract_with env cfgs url)) = length cfgs"
    by simp
  with inv run(2) show ?thesis
    by (simp add: all_failed_def)
qed

theorem exhaustion_reports_last_diagnostic_witness:
  "length (invocations (extract_video (toy_env None (\<lambda>i. CompletedProcess 1 []
                     (if i = 4 then py ''ERROR: last'' else py ''ERROR: Sign in to confirm''))) toy_url)) = 5
   \<and> response (extract_video (toy_env None (\<lambda>i. CompletedProcess 1 []
                     (if i = 4 then py ''ERROR: last'' else py ''ERROR: Sign in to confirm''))) toy_url)
       = HTTPException 500 (py ''yt-dlp extraction failed: ERROR: last'')"
proof -
  let ?env = "toy_env None (\<lambda>i. CompletedProcess 1 []
                     (if i = 4 then py ''ERROR: last'' else py ''ERROR: Sign in to confirm''))"
  have fail: "\<forall>i<length player_configs. \<not> success ?env (outcome_at ?env player_configs toy_url i)"
    by (simp add: outcome_at_def toy_env_def success_def)
  have len: "length player_configs = 5"
    by (simp add: player_configs_def)
  have "result_at ?env player_configs toy_url 4 = Continue Other (py ''ERROR: last'')"
    by (simp add: result_at_def outcome_at_def toy_env_def classify_def classify_failure_def
                  error_msg_def or_str_def py_def)
  moreover have "error_detail (Some (py ''ERROR: last'')) = py ''ERROR: last''"
    by (simp add: error_detail_def or_str_def bot_pattern_def lower_def py_def)
  moreover have "player_configs \<noteq> []"
    using len by auto
  ultimately show ?thesis
    using exhaustion_reports_last_diagnostic [OF fail] len
    by (simp add: extract_video_def py_def)
qed

section \<open>Exit status zero with undecodable output\<close>




section \<open>Timeout\<close>

text \<open>
  Claim C6. The tool is run with a timeout of 60 seconds. An attempt on which
  \<open>subprocess.run\<close> raises \<open>TimeoutExpired\<close> gives a timeout diagnostic and the loop goes on
  with the strategies that remain: the extraction is not aborted.
\<close>

theorem timeout_advances:
  assumes "subprocess_run env i (build_args (executable env) url uc cf cfg) 60 = TimeoutExpired"
  shows "attempt env url uc cf i cfg = Continue Timeout (py ''Video extraction timed out'')
       \<and> try_configs env url uc cf i (cfg # cfgs) last_error
           = ((cfg, build_args (executable env) url uc cf cfg,
               Continue Timeout (py ''Video extraction timed out''))
                # fst (try_configs env url uc cf (Suc i) cfgs
                         (Some (py ''Video extraction timed out''))),
              snd (try_configs env url uc cf (Suc i) cfgs
                     (Some (py ''Video extraction timed out''))))"
proof -
  have "attempt env url uc cf i cfg = Continue Timeout (py ''Video extraction timed out'')"
    using assms by (simp add: attempt_def classify_def)
  then show ?thesis
    using try_configs_Continue by blast
qed

theorem timeout_advances_witness:
  "subprocess_run (toy_env None (\<lambda>i. TimeoutExpired)) 0
       (build_args (executable (toy_env None (\<lambda>i. TimeoutExpired)))
          toy_url False None (py ''web'', None, [])) 60
     = TimeoutExpired
   \<and> try_configs (toy_env None (\<lambda>i. TimeoutExpired)) toy_url False None 0
        [(py ''web'', None, []), (py ''ios'', None, [])] None
     = (((py ''web'', None, []),
        build_args (executable (toy_env None (\<lambda>i. TimeoutExpired)))
          toy_url False None (py ''web'', None, []),
        Continue Timeout (py ''Video extraction timed out''))
         # fst (try_configs (toy_env None (\<lambda>i. TimeoutExpired)) toy_url False None 1
                  [(py ''ios'', None, [])] (Some (py ''Video extraction timed out''))),
        snd (try_configs (toy_env None (\<lambda>i. TimeoutExpired)) toy_url False None 1
               [(py ''ios'', None, [])] (Some (py ''Video extraction timed out''))))"
proof -
  let ?env = "toy_env None (\<lambda>i. TimeoutExpired)"
  have run: "subprocess_run ?env 0
       (build_args (executable ?env) toy_url False None (py ''web'', None, [])) 60
     = TimeoutExpired"
    by (simp add: toy_env_def)
  from timeout_advances [OF run, of "[(py ''ios'', None, [])]" None] run
  show ?thesis by (simp del: try_configs.simps)
qed

section \<open>Classifying a non-zero exit\<close>

text \<open>\<open>contains\<close> is exact, contiguous occurrence: letters match in their own case only.\<close>

lemma contains_sublist: "contains s sub \<longleftrightarrow> sublist sub s"
  by (induction s) (auto simp add: sublist_Cons_right)

text \<open>
  Claim C3 as it is written asks for a case-insensitive match on stderr and stdout together.
  The source compares exactly, and looks at stdout only when stderr is empty: an upper-case
  \<open>WATCH ON THE LATEST VERSION\<close> on stderr, and \<open>not available on this app\<close> on stdout
  beside a non-empty stderr, are both classified \<open>Other\<close>.
\<close>

theorem case_insensitive_match_counterexample:
  "attempt (toy_env None (\<lambda>i. CompletedProcess 1 [] (py ''ERROR: WATCH ON THE LATEST VERSION'')))
     toy_url False None 0 (py ''android'', None, [])
     = Continue Other (py ''ERROR: WATCH ON THE LATEST VERSION'')
   \<and> attempt (toy_env None (\<lambda>i. CompletedProcess 1 (py ''not available on this app'') (py ''WARNING: x'')))
     toy_url False None 0 (py ''android'', None, [])
     = Continue Other (py ''WARNING: x'')"
  by (simp add: attempt_def toy_env_def classify_def classify_failure_def error_msg_def
                or_str_def py_def)

text \<open>
  Claim C3, as the code has it. For every attempt that exits with a non-zero status, the
  category is decided, first match wins, by exact (case-sensitive) substring tests on one
  text: stderr if it is not empty, else stdout if it is not empty, else \<open>Unknown error\<close>.
  The text is bot-detection if it contains \<open>Sign in to confirm\<close> or \<open>not a bot\<close>; otherwise
  unsupported-content if it contains \<open>not available on this app\<close> or
  \<open>Watch on the latest version\<close>; otherwise other. In every case the loop retries with the
  next strategy.
\<close>

theorem failure_classified_by_exact_text:
  assumes "subprocess_run env i (build_args (executable env) url uc cf cfg) 60
             = CompletedProcess returncode stdout stderr"
    and "returncode \<noteq> 0"
  shows "error_msg stderr stdout
           = (if stderr \<noteq> [] then stderr else if stdout \<noteq> [] then stdout else py ''Unknown error'')
       \<and> category_of (attempt env url uc cf i cfg)
           = Some (if sublist (py ''Sign in to confirm'') (error_msg stderr stdout)
                      \<or> sublist (py ''not a bot'') (error_msg stderr stdout)
                   then BotDetection
                   else if sublist (py ''not available on this app'') (error_msg stderr stdout)
                           \<or> sublist (py ''Watch on the latest version'') (error_msg stderr stdout)
                   then UnsupportedContent
                   else Other)
       \<and> (\<exists>cat m. attempt env url uc cf i cfg = Continue cat m
             \<and> try_configs env url uc cf i (cfg # cfgs) last_error
                = ((cfg, build_args (executable env) url uc cf cfg, Continue cat m)
                     # fst (try_configs env url uc cf (Suc i) cfgs (Some m)),
                   snd (try_configs env url uc cf (Suc i) cfgs (Some m))))"
proof -
  have a: "attempt env url uc cf i cfg = classify_failure cfg (error_msg stderr stdout)"
    using assms by (simp add: attempt_def classify_def)
  have tab: "category_of (classify_failure cfg msg)
          = Some (if sublist (py ''Sign in to confirm'') msg \<or> sublist (py ''not a bot'') msg
                  then BotDetection
                  else if sublist (py ''not available on this app'') msg
                          \<or> sublist (py ''Watch on the latest version'') msg
                  then UnsupportedContent
                  else Other)" for msg
    by (simp add: classify_failure_def contains_sublist)
  have cat: "category_of (attempt env url uc cf i cfg)
           = Some (if sublist (py ''Sign in to confirm'') (error_msg stderr stdout)
                      \<or> sublist (py ''not a bot'') (error_msg stderr stdout)
                   then BotDetection
                   else if sublist (py ''not available on this app'') (error_msg stderr stdout)
                           \<or> sublist (py ''Watch on the latest version'') (error_msg stderr stdout)
                   then UnsupportedContent
                   else Other)"
    unfolding a by (rule tab)
  obtain c m where cm: "attempt env url uc cf i cfg = Continue c m"
    using a classify_failure_Continue [of cfg "error_msg stderr stdout"] by auto
  have adv: "\<exists>cat m. attempt env url uc cf i cfg = Continue cat m
             \<and> try_configs env url uc cf i (cfg # cfgs) last_error
                = ((cfg, build_args (executable env) url uc cf cfg, Continue cat m)
                     # fst (try_configs env url uc cf (Suc i) cfgs (Some m)),
                   snd (try_configs env url uc cf (Suc i) cfgs (Some m)))"
    using cm try_configs_Continue [OF cm] by blast
  have "error_msg stderr stdout
           = (if stderr \<noteq> [] then stderr else if stdout \<noteq> [] then stdout else py ''Unknown error'')"
    by (simp add: error_msg_def or_str_def)
  with cat adv show ?thesis by blast
qed

theorem failure_classified_by_exact_text_witness:
  "subprocess_run (toy_env None (\<lambda>i. CompletedProcess 1 [] (py ''ERROR: Watch on the latest version of YouTube''))) 0
       (build_args (executable (toy_env None (\<lambda>i. CompletedProcess 1 [] (py ''ERROR: Watch on the latest version of YouTube''))))
          toy_url False None (py ''android'', None, [])) 60
     = CompletedProcess 1 [] (py ''ERROR: Watch on the latest version of YouTube'')
   \<and> (1::int) \<noteq> 0
   \<and> category_of (attempt (toy_env None (\<lambda>i. CompletedProcess 1 [] (py ''ERROR: Watch on the latest version of YouTube'')))
        toy_url False None 0 (py ''android'', None, []))
     = Some UnsupportedContent"
proof -
  let ?env = "toy_env None (\<lambda>i. CompletedProcess 1 [] (py ''ERROR: Watch on the latest version of YouTube''))"
  have run: "subprocess_run ?env 0
       (build_args (executable ?env) toy_url False None (py ''android'', None, [])) 60
     = CompletedProcess 1 [] (py ''ERROR: Watch on the latest version of YouTube'')"
    by (simp add: toy_env_def)
  have ne: "(1::int) \<noteq> 0" by simp
  from failure_classified_by_exact_text [OF run ne, of "[]" None] run
  show ?thesis
    by (simp add: py_def flip: contains_sublist)
qed

section \<open>Remediation text on exhaustion\<close>

lemma bot_pattern_nonempty: "bot_pattern m \<Longrightarrow> m \<noteq> []"
  by (auto simp add: bot_pattern_def lower_def py_def)

lemma error_detail_bot: "bot_pattern m \<Longrightarrow> error_detail (Some m) = remediation"
  using bot_pattern_nonempty [of m] by (simp add: error_detail_def or_str_def)

text \<open>
  Claim C4. If all five strategies fail and the message kept from the last attempt matches
  the bot/auth pattern (it contains \<open>bot\<close> in any letter case, or \<open>Sign in\<close>), the request
  makes exactly five invocations and fails with the remediation text on how to supply a
  cookies file. The status is 500 as for every exhausted request, and the diagnostic
  recorded for the last attempt keeps its category: only the text raised changes.
\<close>

theorem bot_pattern_remediation:
  assumes "\<forall>i<5. \<not> success env (outcome_at env player_configs url i)"
    and "result_at env player_configs url 4 = Continue cat m"
    and "bot_pattern m"
  shows "length (invocations (extract_video env url)) = 5
       \<and> response (extract_video env url)
           = HTTPException 500 (py ''yt-dlp extraction failed: '' @ remediation)
       \<and> last (attempts (extract_video env url))
           = (player_configs ! 4, invocation env url (player_configs ! 4), Continue cat m)"
proof -
  have "\<forall>i<length player_configs. \<exists>cat m. result_at env player_configs url i = Continue cat m"
    using assms(1) by (simp add: result_at_def classify_not_success length_player_configs)
  note run = all_fail_run [OF this]
  have ne: "player_configs \<noteq> []"
    using length_player_configs by auto
  have n: "length (invocations (extract_video env url)) = 5"
    by (simp add: extract_video_def invocations_def run(1) length_player_configs)
  have r: "response (extract_video env url)
           = HTTPException 500 (py ''yt-dlp extraction failed: '' @ remediation)"
    using ne assms(2,3)
    by (simp add: extract_video_def run(2) length_player_configs all_failed_def error_detail_bot)
  have "attempts (extract_video env url)
          = map (\<lambda>i. (player_configs ! i, invocation env url (player_configs ! i),
                       result_at env player_configs url i)) [0..<5]"
    by (simp add: extract_video_def run(1) length_player_configs)
  also have "[0..<5] = [0..<4] @ [4::nat]"
    by (simp add: upt_rec)
  finally have "last (attempts (extract_video env url))
           = (player_configs ! 4, invocation env url (player_configs ! 4), Continue cat m)"
    using assms(2) by simp
  with n r show ?thesis by simp
qed

theorem bot_pattern_remediation_witness:
  "result_at (toy_env None (\<lambda>i. CompletedProcess 1 [] (py ''ERROR: Sign in to confirm you are not a bot'')))
        player_configs toy_url 4
       = Continue BotDetection (py ''YouTube bot detection (tried mweb)'')
   \<and> bot_pattern (py ''YouTube bot detection (tried mweb)'')
   \<and> length (invocations (extract_video (toy_env None (\<lambda>i. CompletedProcess 1 [] (py ''ERROR: Sign in to confirm you are not a bot''))) toy_url)) = 5
   \<and> response (extract_video (toy_env None (\<lambda>i. CompletedProcess 1 [] (py ''ERROR: Sign in to confirm you are not a bot''))) toy_url)
       = HTTPException 500 (py ''yt-dlp extraction failed: '' @ remediation)"
proof -
  let ?env = "toy_env None (\<lambda>i. CompletedProcess 1 [] (py ''ERROR: Sign in to confirm you are not a bot''))"
  have fail: "\<forall>i<5. \<not> success ?env (outcome_at ?env player_configs toy_url i)"
    by (simp add: outcome_at_def toy_env_def success_def)
  have last: "result_at ?env player_configs toy_url 4
                = Continue BotDetection (py ''YouTube bot detection (tried mweb)'')"
    by (simp add: result_at_def outcome_at_def toy_env_def classify_def classify_failure_def
                  error_msg_def or_str_def player_configs_def py_def)
  have bot: "bot_pattern (py ''YouTube bot detection (tried mweb)'')"
    by (simp add: bot_pattern_def lower_def py_def)
  from bot_pattern_remediation [OF fail last bot] last bot
  show ?thesis by simp
qed

section \<open>What a run reads of its environment\<close>

lemma classify_cong:
  "json_loads env = json_loads env' \<Longrightarrow> response_error env = response_error env'
   \<Longrightarrow> classify env cfg outcome = classify env' cfg outcome"
  by (cases outcome)
     (auto simp add: classify_def split: loads_outcome.splits sum.splits option.splits)

lemma try_configs_cong:
  assumes "json_loads env = json_loads env'"
    and "\<forall>j<length cfgs. build_args (executable env) url uc cf (cfgs ! j)
                            = build_args (executable env') url uc' cf' (cfgs ! j)"
    and "\<forall>j<length cfgs. subprocess_run env (i + j) (build_args (executable env) url uc cf (cfgs ! j)) 60
                            = subprocess_run env' (i + j) (build_args (executable env) url uc cf (cfgs ! j)) 60"
    and "response_error env = response_error env'"
  shows "try_configs env url uc cf i cfgs le = try_configs env' url uc' cf' i cfgs le"
  using assms(2,3)
proof (induction cfgs arbitrary: i le)
  case Nil
  show ?case by simp
next
  case (Cons c cfgs)
  have args: "build_args (executable env) url uc cf c = build_args (executable env') url uc' cf' c"
    using Cons.prems(1) by auto
  have "subprocess_run env (i + 0) (build_args (executable env) url uc cf ((c # cfgs) ! 0)) 60
          = subprocess_run env' (i + 0) (build_args (executable env) url uc cf ((c # cfgs) ! 0)) 60"
    using Cons.prems(2) by blast
  then have run: "subprocess_run env i (build_args (executable env) url uc cf c) 60
          = subprocess_run env' i (build_args (executable env) url uc cf c) 60"
    by simp
  have att: "attempt env url uc cf i c = attempt env' url uc' cf' i c"
    using args run classify_cong [OF assms(1) assms(4)] by (simp add: attempt_def)
  have b: "\<forall>j<length cfgs. build_args (executable env) url uc cf (cfgs ! j)
                            = build_args (executable env') url uc' cf' (cfgs ! j)"
    using Cons.prems(1) by auto
  have r: "\<forall>j<length cfgs. subprocess_run env (Suc i + j) (build_args (executable env) url uc cf (cfgs ! j)) 60
                            = subprocess_run env' (Suc i + j) (build_args (executable env) url uc cf (cfgs ! j)) 60"
  proof (intro allI impI)
    fix j assume "j < length cfgs"
    then have "Suc j < length (c # cfgs)" by simp
    with Cons.prems(2)
    have "subprocess_run env (i + Suc j) (build_args (executable env) url uc cf ((c # cfgs) ! Suc j)) 60
            = subprocess_run env' (i + Suc j) (build_args (executable env) url uc cf ((c # cfgs) ! Suc j)) 60"
      by blast
    then show "subprocess_run env (Suc i + j) (build_args (executable env) url uc cf (cfgs ! j)) 60
                 = subprocess_run env' (Suc i + j) (build_args (executable env) url uc cf (cfgs ! j)) 60"
      by simp
  qed
  have IH: "try_configs env url uc cf (Suc i) cfgs le' = try_configs env' url uc' cf' (Suc i) cfgs le'" for le'
    using Cons.IH [OF b r] .
  show ?case
    by (cases "attempt env' url uc' cf' i c") (simp_all add: att args IH)
qed

section \<open>The credential bundle\<close>

lemma use_cookies_file:
  "snd (use_cookies env cf) \<Longrightarrow> \<exists>p. cf = Some p \<and> p \<noteq> [] \<and> path_exists env p"
  by (cases cf) (auto simp add: use_cookies_def split: if_splits)

lemma build_args_no_cookies:
  "build_args exe url False (Some p) cfg = build_args exe url False None cfg"
  by (cases cfg) simp

text \<open>
  Claim C7. When \<open>YTDLP_COOKIES_FILE\<close> is set and the file it names does not exist, every
  strategy's invocation is the one built with no bundle (no \<open>--cookies\<close> flag), the attempts
  and the response are those of the same request with the variable unset, and building
  cannot fail: \<open>build_args\<close> is a total function. The filesystem is asked once per request,
  before the loop, for a path that is not the empty string (for the empty string \<open>and\<close>
  short-circuits and it is not asked at all).
\<close>

theorem missing_bundle_as_unset:
  assumes "getenv env (py ''YTDLP_COOKIES_FILE'') = Some p"
    and "\<not> path_exists env p"
  shows "(\<forall>cfg. invocation env url cfg = build_args (executable env) url False None cfg)
       \<and> attempts (extract_with env cfgs url)
           = attempts (extract_with (env\<lparr>getenv := \<lambda>k. None\<rparr>) cfgs url)
       \<and> response (extract_with env cfgs url)
           = response (extract_with (env\<lparr>getenv := \<lambda>k. None\<rparr>) cfgs url)
       \<and> exists_checks (extract_with env cfgs url) = (if p = [] then [] else [p])"
proof -
  let ?env' = "env\<lparr>getenv := \<lambda>k. None\<rparr>"
  have cf: "cookies_file env = Some p"
    using assms(1) by (simp add: cookies_file_def)
  have uc: "use_cookies env (Some p) = (if p = [] then [] else [p], False)"
    using assms(2) by (simp add: use_cookies_def)
  have cf': "cookies_file ?env' = None"
    by (simp add: cookies_file_def)
  have uc': "use_cookies ?env' None = ([], False)"
    by (simp add: use_cookies_def)
  have inv: "invocation env url cfg = build_args (executable env) url False None cfg" for cfg
    by (simp add: invocation_def cf uc build_args_no_cookies)
  have "try_configs env url False (Some p) 0 cfgs None = try_configs ?env' url False None 0 cfgs None"
    by (rule try_configs_cong) (simp_all add: build_args_no_cookies)
  then have same: "try_configs env url (snd (use_cookies env (cookies_file env))) (cookies_file env) 0 cfgs None
          = try_configs ?env' url (snd (use_cookies ?env' (cookies_file ?env'))) (cookies_file ?env') 0 cfgs None"
    by (simp only: cf uc cf' uc' snd_conv)
  have chk: "exists_checks (extract_with env cfgs url) = (if p = [] then [] else [p])"
    using assms by (simp add: extract_with_def use_cookies_def Let_def)
  from inv same chk show ?thesis
    by (simp add: extract_with_attempts extract_with_response)
qed

theorem missing_bundle_as_unset_witness:
  "getenv (toy_env (Some (py ''/data/cookies.txt'')) (\<lambda>i. TimeoutExpired)) (py ''YTDLP_COOKIES_FILE'')
     = Some (py ''/data/cookies.txt'')
   \<and> \<not> path_exists (toy_env (Some (py ''/data/cookies.txt'')) (\<lambda>i. TimeoutExpired)) (py ''/data/cookies.txt'')
   \<and> invocation (toy_env (Some (py ''/data/cookies.txt'')) (\<lambda>i. TimeoutExpired)) toy_url (py ''ios'', None, [])
     = build_args (py ''/usr/bin/python3'') toy_url False None (py ''ios'', None, [])
   \<and> exists_checks (extract_video (toy_env (Some (py ''/data/cookies.txt'')) (\<lambda>i. TimeoutExpired)) toy_url)
     = [py ''/data/cookies.txt'']"
proof -
  let ?env = "toy_env (Some (py ''/data/cookies.txt'')) (\<lambda>i. TimeoutExpired)"
  have set: "getenv ?env (py ''YTDLP_COOKIES_FILE'') = Some (py ''/data/cookies.txt'')"
    by (simp add: toy_env_def)
  have missing: "\<not> path_exists ?env (py ''/data/cookies.txt'')"
    by (simp add: toy_env_def)
  have exe: "executable ?env = py ''/usr/bin/python3''"
    by (simp add: toy_env_def)
  have ne: "py ''/data/cookies.txt'' \<noteq> []"
    by (simp add: py_def)
  from missing_bundle_as_unset [OF set missing, of toy_url player_configs] set missing exe ne
  show ?thesis by (simp add: extract_video_def)
qed

section \<open>Flags common to every invocation\<close>

text \<open>
  Claim C8. For every strategy, URL and cookie setting, the invocation starts with the
  interpreter, \<open>-m yt_dlp\<close>, \<open>--dump-json\<close>, \<open>--no-warnings\<close>, \<open>--no-playlist\<close> and the fixed
  \<open>--user-agent\<close>; it always holds, in a row, the hints \<open>player_params=8AEB\<close>,
  \<open>include_live_chat=false\<close> and \<open>skip=dash,translated_subs\<close> followed by the YouTube referer
  header; and it ends with the URL.
\<close>

theorem invocation_fixed_flags:
  "prefix [exe, py ''-m'', py ''yt_dlp'', py ''--dump-json'', py ''--no-warnings'',
           py ''--no-playlist'', py ''--user-agent'', user_agent]
          (build_args exe url uc cf cfg)
   \<and> sublist [py ''--extractor-args'', py ''youtube:player_params=8AEB'',
               py ''--extractor-args'', py ''youtube:include_live_chat=false'',
               py ''--extractor-args'', py ''youtube:skip=dash,translated_subs'',
               py ''--add-header'', py ''Referer:https://www.youtube.com/'']
              (build_args exe url uc cf cfg)
   \<and> last (build_args exe url uc cf cfg) = url"
proof -
  obtain client_type skip_type additional_args where cfg: "cfg = (client_type, skip_type, additional_args)"
    by (cases cfg) auto
  let ?hints = "[py ''--extractor-args'', py ''youtube:player_params=8AEB'',
               py ''--extractor-args'', py ''youtube:include_live_chat=false'',
               py ''--extractor-args'', py ''youtube:skip=dash,translated_subs'',
               py ''--add-header'', py ''Referer:https://www.youtube.com/'']"
  have "\<exists>before after. build_args exe url uc cf cfg = before @ ?hints @ after"
  proof (intro exI)
    show "build_args exe url uc cf cfg
            = ([exe, py ''-m'', py ''yt_dlp'', py ''--dump-json'', py ''--no-warnings'',
                py ''--no-playlist'', py ''--user-agent'', user_agent,
                py ''--extractor-args'', py ''youtube:player_client='' @ client_type]
               @ (if truthy skip_type
                  then [py ''--extractor-args'',
                        py ''youtube:player_skip='' @ (case skip_type of Some s \<Rightarrow> s | None \<Rightarrow> [])]
                  else []))
              @ ?hints
              @ (additional_args
                 @ (if uc then (case cf of Some p \<Rightarrow> [py ''--cookies'', p] | None \<Rightarrow> []) else [])
                 @ [url])"
      by (simp add: cfg)
  qed
  then have "sublist ?hints (build_args exe url uc cf cfg)"
    by (simp add: sublist_def)
  moreover have "prefix [exe, py ''-m'', py ''yt_dlp'', py ''--dump-json'', py ''--no-warnings'',
           py ''--no-playlist'', py ''--user-agent'', user_agent]
          (build_args exe url uc cf cfg)"
    by (simp add: cfg)
  moreover have "last (build_args exe url uc cf cfg) = url"
    by (simp add: cfg)
  ultimately show ?thesis by blast
qed

section \<open>Two runs in the same environment\<close>

text \<open>
  Claim C9. Two runs on the same URL take the same classification path (the same strategies
  attempted, the same category for each attempt, the same kind of outcome) whenever their
  environments agree on what a run reads: the interpreter path, the variable
  \<open>YTDLP_COOKIES_FILE\<close>, whether the file it names exists, the parser, the constructor of
  the response, and what the tool does on the invocations of the strategy list. The environments may differ anywhere else. Under
  that agreement the two runs are equal altogether.
\<close>

theorem same_environment_same_path:
  assumes "executable env = executable env'"
    and "getenv env (py ''YTDLP_COOKIES_FILE'') = getenv env' (py ''YTDLP_COOKIES_FILE'')"
    and "\<forall>p. getenv env (py ''YTDLP_COOKIES_FILE'') = Some p \<longrightarrow> path_exists env p = path_exists env' p"
    and "json_loads env = json_loads env'"
    and "\<forall>i<length cfgs. subprocess_run env i (invocation env url (cfgs ! i)) 60
                            = subprocess_run env' i (invocation env url (cfgs ! i)) 60"
    and "response_error env = response_error env'"
  shows "classification_path (extract_with env cfgs url) = classification_path (extract_with env' cfgs url)
       \<and> extract_with env cfgs url = extract_with env' cfgs url"
proof -
  have cf: "cookies_file env' = cookies_file env"
    using assms(2) by (simp add: cookies_file_def)
  have uc: "use_cookies env' (cookies_file env) = use_cookies env (cookies_file env)"
    using assms(3) by (cases "cookies_file env") (simp_all add: use_cookies_def cookies_file_def)
  let ?uc = "snd (use_cookies env (cookies_file env))"
  let ?cf = "cookies_file env"
  have "try_configs env url ?uc ?cf 0 cfgs None = try_configs env' url ?uc ?cf 0 cfgs None"
  proof (rule try_configs_cong)
    show "json_loads env = json_loads env'" by (rule assms(4))
    show "\<forall>j<length cfgs. build_args (executable env) url ?uc ?cf (cfgs ! j)
                            = build_args (executable env') url ?uc ?cf (cfgs ! j)"
      using assms(1) by simp
    show "\<forall>j<length cfgs. subprocess_run env (0 + j) (build_args (executable env) url ?uc ?cf (cfgs ! j)) 60
                            = subprocess_run env' (0 + j) (build_args (executable env) url ?uc ?cf (cfgs ! j)) 60"
      using assms(5) by (simp add: invocation_def)
    show "response_error env = response_error env'" by (rule assms(6))
  qed
  then have "extract_with env cfgs url = extract_with env' cfgs url"
    using cf uc by (simp add: extract_with_def Let_def cookies_file_def)
  then show ?thesis by simp
qed

theorem same_environment_same_path_witness:
  "classification_path
     (extract_video (toy_env None (\<lambda>i. if i = 0 then CompletedProcess 1 [] (py ''ERROR: boom'')
                                        else CompletedProcess 0 (py ''{}'') [])) toy_url)
   = classification_path
     (extract_video ((toy_env None (\<lambda>i. if i = 0 then CompletedProcess 1 [] (py ''ERROR: boom'')
                                         else if i < 5 then CompletedProcess 0 (py ''{}'') []
                                         else TimeoutExpired))\<lparr>path_exists := \<lambda>p. True\<rparr>) toy_url)"
proof -
  let ?env = "toy_env None (\<lambda>i. if i = 0 then CompletedProcess 1 [] (py ''ERROR: boom'')
                                        else CompletedProcess 0 (py ''{}'') [])"
  let ?env' = "(toy_env None (\<lambda>i. if i = 0 then CompletedProcess 1 [] (py ''ERROR: boom'')
                                         else if i < 5 then CompletedProcess 0 (py ''{}'') []
                                         else TimeoutExpired))\<lparr>path_exists := \<lambda>p. True\<rparr>"
  have 1: "executable ?env = executable ?env'"
    by (simp add: toy_env_def)
  have 2: "getenv ?env (py ''YTDLP_COOKIES_FILE'') = getenv ?env' (py ''YTDLP_COOKIES_FILE'')"
    by (simp add: toy_env_def)
  have 3: "\<forall>p. getenv ?env (py ''YTDLP_COOKIES_FILE'') = Some p \<longrightarrow> path_exists ?env p = path_exists ?env' p"
    by (simp add: toy_env_def)
  have 4: "json_loads ?env = json_loads ?env'"
    by (simp add: toy_env_def)
  have 5: "\<forall>i<length player_configs.
             subprocess_run ?env i (invocation ?env toy_url (player_configs ! i)) 60
               = subprocess_run ?env' i (invocation ?env toy_url (player_configs ! i)) 60"
    by (simp add: toy_env_def length_player_configs)
  have 6: "response_error ?env = response_error ?env'"
    by (simp add: toy_env_def)
  from same_environment_same_path [OF 1 2 3 4 5 6]
  show ?thesis by (simp add: extract_video_def)
qed

section \<open>The fallback text\<close>

lemma classify_empty_message:
  assumes "classify env cfg outcome = Continue cat m"
  shows "m = [] \<longleftrightarrow> raised_empty env outcome"
proof (cases outcome)
  case (CompletedProcess rc out err)
  show ?thesis
  proof (cases "rc = 0")
    case True
    from assms CompletedProcess True
    have z: "classify env cfg (CompletedProcess 0 out err) = Continue cat m"
      by simp
    show ?thesis
    proof (cases "json_loads env out")
      case (Decoded data)
      show ?thesis
      proof (cases "\<exists>kvs. data = JDict kvs")
        case dict: True
        then obtain kvs where d: "data = JDict kvs"
          by blast
        show ?thesis
        proof (cases "response_error env (JDict kvs)")
          case None
          with z Decoded d show ?thesis
            by (simp add: classify_zero_exit)
        next
          case (Some e)
          with z Decoded d have "m = e"
            by (simp add: classify_zero_exit)
          with CompletedProcess True Decoded d Some show ?thesis
            by (simp add: raised_empty_def)
        qed
      next
        case other: False
        with z Decoded have "m \<noteq> []"
          by (cases data) (auto simp add: classify_zero_exit quote_def)
        moreover from other CompletedProcess True Decoded
        have "\<not> raised_empty env outcome"
          by (cases data) (simp_all add: raised_empty_def)
        ultimately show ?thesis by simp
      qed
    next
      case (JSONDecodeError e)
      with z have "m \<noteq> []"
        by (auto simp add: classify_zero_exit py_def)
      with CompletedProcess True JSONDecodeError show ?thesis
        by (simp add: raised_empty_def)
    next
      case (LoadsRaised e)
      with z have "m = e"
        by (simp add: classify_zero_exit)
      with CompletedProcess True LoadsRaised show ?thesis
        by (simp add: raised_empty_def)
    qed
  next
    case False
    have ne: "error_msg err out \<noteq> []"
      by (simp add: error_msg_def or_str_def py_def)
    from False CompletedProcess
    have "classify env cfg outcome = classify_failure cfg (error_msg err out)"
      by (simp add: classify_def)
    with assms ne have "m \<noteq> []"
      by (auto simp add: classify_failure_def py_def split: if_splits)
    with False CompletedProcess show ?thesis
      by (simp add: raised_empty_def)
  qed
next
  case TimeoutExpired
  with assms show ?thesis by (auto simp add: classify_def raised_empty_def py_def)
next
  case (Raised e)
  with assms show ?thesis by (auto simp add: classify_def raised_empty_def)
qed

text \<open>
  Claim C10 as it is written holds the fallback text to be unreachable. When
  \<open>subprocess.run\<close> raises an exception whose text is empty on the last attempt, line 187
  stores the empty string, which is falsy, and line 191 takes the fallback text.
\<close>

theorem fallback_reachable:
  "result_at (toy_env None (\<lambda>i. Raised [])) player_configs toy_url 4 = Continue InternalError []
   \<and> response (extract_video (toy_env None (\<lambda>i. Raised [])) toy_url)
       = HTTPException 500 (py ''yt-dlp extraction failed: All YouTube client types failed'')"
proof -
  let ?env = "toy_env None (\<lambda>i. Raised [])"
  have res: "result_at ?env player_configs toy_url i = Continue InternalError []" for i
    by (simp add: result_at_def outcome_at_def toy_env_def classify_def)
  then have "\<forall>i<length player_configs. \<exists>cat m. result_at ?env player_configs toy_url i = Continue cat m"
    by simp
  note run = all_fail_run [OF this]
  have ne: "player_configs \<noteq> []"
    using length_player_configs by auto
  have "error_detail (Some []) = py ''All YouTube client types failed''"
    by (simp add: error_detail_def or_str_def fallback_def bot_pattern_def lower_def py_def)
  with ne have "response (extract_video ?env toy_url)
       = HTTPException 500 (py ''yt-dlp extraction failed: All YouTube client types failed'')"
    by (simp add: extract_video_def run(2) res all_failed_def py_def)
  with res [of 4] show ?thesis by simp
qed

text \<open>
  Claim C10, as the code has it. When every strategy of a non-empty list fails,
  \<open>last_error\<close> has been assigned at exhaustion: it is the message of the last attempt, and the
  text raised is built from it. That message is empty only when, on the last attempt, an
  exception whose text is empty reached the handler of line 185 (raised by
  \<open>subprocess.run\<close>, by \<open>json.loads\<close> or by the constructor of the response); every other
  failure branch records a non-empty message. The fallback text is taken in that one case
  and in no other.
\<close>

theorem last_error_set_on_exhaustion:
  assumes "cfgs \<noteq> []"
    and "\<forall>i<length cfgs. \<not> success env (outcome_at env cfgs url i)"
  shows "\<exists>cat m. result_at env cfgs url (length cfgs - 1) = Continue cat m
           \<and> response (extract_with env cfgs url)
               = HTTPException 500 (py ''yt-dlp extraction failed: '' @ error_detail (Some m))
           \<and> (m = [] \<longleftrightarrow> raised_empty env (outcome_at env cfgs url (length cfgs - 1)))
           \<and> (outcome_at env cfgs url (length cfgs - 1) = Raised [] \<longrightarrow> m = [])
           \<and> or_default (Some m) fallback = (if m = [] then fallback else m)"
proof -
  have all: "\<forall>i<length cfgs. \<exists>cat m. result_at env cfgs url i = Continue cat m"
    using assms(2) by (simp add: result_at_def classify_not_success)
  note run = all_fail_run [OF all]
  from assms(1) have "length cfgs - 1 < length cfgs" by simp
  with all obtain cat m where last: "result_at env cfgs url (length cfgs - 1) = Continue cat m"
    by blast
  have r: "response (extract_with env cfgs url)
             = HTTPException 500 (py ''yt-dlp extraction failed: '' @ error_detail (Some m))"
    using assms(1) last by (simp add: run(2) all_failed_def)
  have e: "m = [] \<longleftrightarrow> raised_empty env (outcome_at env cfgs url (length cfgs - 1))"
    using last classify_empty_message by (simp add: result_at_def)
  have e': "outcome_at env cfgs url (length cfgs - 1) = Raised [] \<longrightarrow> m = []"
    using e by (simp add: raised_empty_def)
  have "or_default (Some m) fallback = (if m = [] then fallback else m)"
    by (simp add: or_str_def)
  with last r e e' show ?thesis by blast
qed

theorem last_error_set_on_exhaustion_witness:
  "response (extract_video (toy_env None (\<lambda>i. TimeoutExpired)) toy_url)
     = HTTPException 500 (py ''yt-dlp extraction failed: Video extraction timed out'')"
proof -
  let ?env = "toy_env None (\<lambda>i. TimeoutExpired)"
  have ne: "player_configs \<noteq> []"
    using length_player_configs by auto
  have fail: "\<forall>i<length player_configs. \<not> success ?env (outcome_at ?env player_configs toy_url i)"
    by (simp add: outcome_at_def toy_env_def success_def)
  have last: "result_at ?env player_configs toy_url (length player_configs - 1)
                = Continue Timeout (py ''Video extraction timed out'')"
    by (simp add: result_at_def outcome_at_def toy_env_def classify_def)
  have det: "error_detail (Some (py ''Video extraction timed out'')) = py ''Video extraction timed out''"
    by (simp add: error_detail_def or_str_def bot_pattern_def lower_def py_def)
  from last_error_set_on_exhaustion [OF ne fail] last det
  show ?thesis by (auto simp add: extract_video_def py_def)
qed

end
